theory Spec2Isabelle
  imports Main
begin

section \<open>The deployment tab: data model\<close>

text \<open>
  The development embeds the \<open>DeployTab\<close> component (\<open>src/unnamed/part_001\<close>, lines
  278 to 499): its React state, its handlers \<open>handleFileSelect\<close>, \<open>handleDrop\<close>,
  \<open>handleDeploy\<close>, \<open>pollDeploymentStatus\<close> and the click handler of the button
  "Deploy Another App", and the conditions under which the JSX renders the controls that
  invoke them.

  Strings are byte lists: the log lines that begin with an emoji are written with the
  UTF-8 bytes of the source file.
\<close>

subsection \<open>JavaScript strings and truthiness\<close>

text \<open>\<open>s.endsWith(t)\<close>: case sensitive, true when the last characters of \<open>s\<close> are \<open>t\<close>.\<close>

definition endsWith :: "string \<Rightarrow> string \<Rightarrow> bool" where
  "endsWith s t = (length t \<le> length s \<and> drop (length s - length t) s = t)"

text \<open>
  \<open>s.replace(pat, rep)\<close> with a string pattern: the first occurrence of \<open>pat\<close> in \<open>s\<close>,
  searched from the left, is replaced; later occurrences stay; without an occurrence the
  string is returned as it is.
\<close>

fun replace :: "string \<Rightarrow> string \<Rightarrow> string \<Rightarrow> string" where
  "replace [] pat rep = (if pat = [] then rep else [])"
| "replace (c # cs) pat rep =
     (if take (length pat) (c # cs) = pat then rep @ drop (length pat) (c # cs)
      else c # replace cs pat rep)"

text \<open>
  \<open>s.toLowerCase()\<close> on the letters \<open>A\<close> to \<open>Z\<close> (codes 65 to 90); every other byte is
  kept as it is. The source lowers the cased letters outside ASCII as well; a name with
  such a letter is outside what this function describes, and no statement below
  evaluates it on one.
\<close>

definition lower_char :: "char \<Rightarrow> char" where
  "lower_char c =
     (let n = (of_char c :: nat) in if 65 \<le> n \<and> n \<le> 90 then char_of (n + 32) else c)"

definition toLowerCase :: "string \<Rightarrow> string" where
  "toLowerCase s = map lower_char s"

text \<open>
  A value that is either absent (\<open>null\<close>, \<open>undefined\<close>) or a string is truthy when it is
  a non-empty string. \<open>a || b\<close> is \<open>a\<close> when \<open>a\<close> is truthy and \<open>b\<close> otherwise.
\<close>

fun truthy :: "string option \<Rightarrow> bool" where
  "truthy None = False"
| "truthy (Some s) = (s \<noteq> [])"

text \<open>
  A field of a response body that is printed inside a template literal: it is missing
  (\<open>undefined\<close>), \<open>null\<close>, or a string, and prints as \<open>undefined\<close>, as \<open>null\<close>, or as
  itself.
\<close>

datatype js_string = Undefined | Null | Str string

fun template :: "js_string \<Rightarrow> string" where
  "template Undefined = ''undefined''"
| "template Null = ''null''"
| "template (Str s) = s"

subsection \<open>The fixed texts of the component\<close>

definition emoji_package :: string where
  "emoji_package = [CHR 0xF0, CHR 0x9F, CHR 0x93, CHR 0xA6]"

definition emoji_check :: string where
  "emoji_check = [CHR 0xE2, CHR 0x9C, CHR 0x85]"

definition emoji_hammer :: string where
  "emoji_hammer = [CHR 0xF0, CHR 0x9F, CHR 0x94, CHR 0xA8]"

definition emoji_rocket :: string where
  "emoji_rocket = [CHR 0xF0, CHR 0x9F, CHR 0x9A, CHR 0x80]"

definition emoji_cross :: string where
  "emoji_cross = [CHR 0xE2, CHR 0x9D, CHR 0x8C]"

definition emoji_globe :: string where
  "emoji_globe = [CHR 0xF0, CHR 0x9F, CHR 0x8C, CHR 0x90]"

definition log_uploading :: string where
  "log_uploading = emoji_package @ '' Uploading project files...''"

definition log_upload_complete :: string where
  "log_upload_complete = emoji_check @ '' Upload complete''"

definition log_building :: string where
  "log_building = emoji_hammer @ '' Building Docker image...''"

definition log_deploying :: string where
  "log_deploying = emoji_rocket @ '' Deploying to Azure Container Instances...''"

definition log_deploy_error :: "string \<Rightarrow> string" where
  "log_deploy_error m = emoji_cross @ '' Deployment failed: '' @ m"

definition log_successful :: string where
  "log_successful = emoji_check @ '' Deployment successful!''"

definition log_live :: "js_string \<Rightarrow> string" where
  "log_live u = emoji_globe @ '' Your app is live at: '' @ template u"

definition log_failed :: string where
  "log_failed = emoji_cross @ '' Deployment failed''"

definition msg_invalid_file :: string where
  "msg_invalid_file = ''Please select a valid .zip file containing your project''"

definition msg_no_file :: string where
  "msg_no_file = ''Please select a file first''"

subsection \<open>React state, requests and responses\<close>

text \<open>Of a browser \<open>File\<close> the handlers read the name only.\<close>

record file_obj =
  name :: string

text \<open>The seven \<open>useState\<close> cells of the component, with their initial values
  (\<open>file_cell\<close> is the cell \<open>file\<close> of the source).\<close>

record state =
  file_cell :: "file_obj option"
  deploying :: bool
  deploymentId :: "string option"
  status :: "string option"
  logs :: "string list"
  error :: "string option"
  dragOver :: bool

definition init_state :: state where
  "init_state = \<lparr>file_cell = None, deploying = False, deploymentId = None, status = None,
     logs = [], error = None, dragOver = False\<rparr>"

text \<open>
  The three network calls: \<open>POST /api/deploy/upload\<close> with the file,
  \<open>POST /api/deploy/start\<close> with \<open>upload_id\<close> and \<open>app_name\<close>, and
  \<open>GET /api/deploy/status/<id>\<close>.
\<close>

datatype request =
    UploadReq file_obj
  | StartReq string string
  | StatusReq string

text \<open>
  What a rejected request throws: \<open>err.response?.data?.detail\<close>, which may be absent,
  and \<open>err.message\<close>.
\<close>

record http_error =
  detail :: "string option"
  message :: string

text \<open>The body of a status response: \<open>status\<close>, and the optional \<open>message\<close> and \<open>url\<close>.\<close>

record status_data =
  r_status :: string
  r_message :: "string option"
  r_url :: js_string

text \<open>
  Outcomes of the awaited calls: \<open>Inl\<close> is the thrown error, \<open>Inr\<close> the field read from
  the response body (\<open>upload_id\<close> of the upload, \<open>deployment_id\<close> of the start call, the
  whole body of a status call).
\<close>

type_synonym upload_outcome = "http_error + string"
type_synonym start_outcome = "http_error + string"
type_synonym poll_outcome = "http_error + status_data"

text \<open>
  The component in its environment: the React state, the network calls issued so far
  (oldest first), the \<open>setInterval\<close> timers that are set (each a handle, with the
  deployment id its callback polls), the next free handle, and the status requests whose
  response is awaited (each named by the handle that the awaiting callback holds in its
  closure, one entry per request).
\<close>

record world =
  ui :: state
  requests :: "request list"
  intervals :: "(nat \<times> string) list"
  next_handle :: nat
  inflight :: "nat list"

definition init_world :: world where
  "init_world = \<lparr>ui = init_state, requests = [], intervals = [], next_handle = 0,
     inflight = []\<rparr>"

section \<open>The handlers\<close>

subsection \<open>Selecting a file\<close>

definition handleFileSelect :: "file_obj option \<Rightarrow> state \<Rightarrow> state" where
  "handleFileSelect selectedFile s =
     (case selectedFile of
        Some f \<Rightarrow>
          if endsWith (name f) ''.zip'' then s\<lparr>file_cell := Some f, error := None\<rparr>
          else s\<lparr>error := Some msg_invalid_file\<rparr>
      | None \<Rightarrow> s\<lparr>error := Some msg_invalid_file\<rparr>)"

definition handleDrop :: "file_obj option \<Rightarrow> state \<Rightarrow> state" where
  "handleDrop droppedFile s = handleFileSelect droppedFile (s\<lparr>dragOver := False\<rparr>)"

subsection \<open>Deploying\<close>

text \<open>The \<open>app_name\<close> sent to the start endpoint, computed from the name of the file.\<close>

definition app_name :: "string \<Rightarrow> string" where
  "app_name n = toLowerCase (replace n ''.zip'' [])"

text \<open>\<open>clearInterval(h)\<close> removes the timer with handle \<open>h\<close>, if it is set.\<close>

definition clearInterval :: "nat \<Rightarrow> world \<Rightarrow> world" where
  "clearInterval h w = w\<lparr>intervals := filter (\<lambda>p. fst p \<noteq> h) (intervals w)\<rparr>"

text \<open>
  \<open>pollDeploymentStatus(id)\<close> sets a timer whose callback polls \<open>id\<close>; nothing else
  happens until the timer fires.
\<close>

definition pollDeploymentStatus :: "string \<Rightarrow> world \<Rightarrow> world" where
  "pollDeploymentStatus i w =
     w\<lparr>intervals := intervals w @ [(next_handle w, i)], next_handle := Suc (next_handle w)\<rparr>"

text \<open>The \<open>catch\<close> block of \<open>handleDeploy\<close>.\<close>

definition deploy_catch :: "http_error \<Rightarrow> state \<Rightarrow> state" where
  "deploy_catch err s =
     s\<lparr>error := Some (if truthy (detail err) then the (detail err) else message err),
       status := Some ''failed'',
       logs := logs s @ [log_deploy_error (message err)]\<rparr>"

text \<open>
  \<open>handleDeploy\<close>, run to its end with the outcomes of its two awaited calls given: \<open>up\<close>
  for the upload, \<open>st\<close> for the start call (not consulted when the upload throws). The
  file is the one of the state the handler was created in. The handler is one step of
  the model: what the user does to the file input while one of the two calls is awaited
  is not interleaved with it. The \<open>finally\<close> block runs on the three paths through the
  \<open>try\<close> block and not on the early return.
\<close>

definition handleDeploy :: "upload_outcome \<Rightarrow> start_outcome \<Rightarrow> world \<Rightarrow> world" where
  "handleDeploy up st w =
     (case file_cell (ui w) of
        None \<Rightarrow> w\<lparr>ui := (ui w)\<lparr>error := Some msg_no_file\<rparr>\<rparr>
      | Some f \<Rightarrow>
          let s1 = (ui w)\<lparr>deploying := True, error := None, logs := [log_uploading],
                     status := Some ''uploading''\<rparr>;
              w1 = w\<lparr>ui := s1, requests := requests w @ [UploadReq f]\<rparr>
          in (case up of
                Inl err \<Rightarrow> w1\<lparr>ui := (deploy_catch err s1)\<lparr>deploying := False\<rparr>\<rparr>
              | Inr upload_id \<Rightarrow>
                  let s2 = s1\<lparr>logs := logs s1 @ [log_upload_complete, log_building],
                             status := Some ''building''\<rparr>;
                      w2 = w1\<lparr>ui := s2,
                             requests := requests w1 @ [StartReq upload_id (app_name (name f))]\<rparr>
                  in (case st of
                        Inl err \<Rightarrow> w2\<lparr>ui := (deploy_catch err s2)\<lparr>deploying := False\<rparr>\<rparr>
                      | Inr deployment_id \<Rightarrow>
                          let s3 = s2\<lparr>deploymentId := Some deployment_id,
                                     logs := logs s2 @ [log_deploying]\<rparr>;
                              w3 = pollDeploymentStatus deployment_id (w2\<lparr>ui := s3\<rparr>)
                          in w3\<lparr>ui := (ui w3)\<lparr>deploying := False\<rparr>\<rparr>)))"

subsection \<open>Polling\<close>

text \<open>
  The timer callback up to its \<open>await\<close>: the status request for \<open>i\<close> is issued and its
  response is awaited by a callback that holds the handle \<open>h\<close>.
\<close>

definition poll_tick :: "nat \<Rightarrow> string \<Rightarrow> world \<Rightarrow> world" where
  "poll_tick h i w = w\<lparr>requests := requests w @ [StatusReq i], inflight := inflight w @ [h]\<rparr>"

text \<open>
  The timer callback after its \<open>await\<close>, for the outcome \<open>out\<close> of the request: the
  branches of the \<open>try\<close> block on \<open>response.data.status\<close>, and the \<open>catch\<close> block
  (\<open>console.error\<close>, which leaves the state alone, and \<open>clearInterval\<close>).
\<close>

definition poll_response :: "nat \<Rightarrow> poll_outcome \<Rightarrow> world \<Rightarrow> world" where
  "poll_response h out w =
     (case out of
        Inl err \<Rightarrow> clearInterval h w
      | Inr d \<Rightarrow>
          if r_status d = ''succeeded'' then
            clearInterval h
              (w\<lparr>ui := (ui w)\<lparr>status := Some ''succeeded'',
                     logs := logs (ui w) @ [log_successful, log_live (r_url d)]\<rparr>\<rparr>)
          else if r_status d = ''failed'' then
            clearInterval h
              (w\<lparr>ui := (ui w)\<lparr>status := Some ''failed'',
                     logs := logs (ui w) @ [log_failed]\<rparr>\<rparr>)
          else if truthy (r_message d) then
            w\<lparr>ui := (ui w)\<lparr>logs := logs (ui w) @ [the (r_message d)]\<rparr>\<rparr>
          else w)"

subsection \<open>Deploy Another App\<close>

text \<open>The click handler of the button "Deploy Another App" (lines 474 to 479).\<close>

definition deployAnother :: "state \<Rightarrow> state" where
  "deployAnother s = s\<lparr>file_cell := None, deploymentId := None, status := None, logs := []\<rparr>"

section \<open>What the page offers, and runs of the component\<close>

text \<open>
  The upload area (drop zone, file input, deploy button) is rendered under
  \<open>!deploymentId\<close>; the deploy button under \<open>file\<close> in addition, and it is disabled while
  \<open>deploying\<close>; the button "Deploy Another App" is rendered inside the log card
  (\<open>logs.length > 0\<close>) under \<open>status === 'succeeded'\<close>.
\<close>

definition upload_area_shown :: "state \<Rightarrow> bool" where
  "upload_area_shown s = (\<not> truthy (deploymentId s))"

definition deploy_button_enabled :: "state \<Rightarrow> bool" where
  "deploy_button_enabled s = (upload_area_shown s \<and> file_cell s \<noteq> None \<and> \<not> deploying s)"

definition deploy_another_shown :: "state \<Rightarrow> bool" where
  "deploy_another_shown s = (logs s \<noteq> [] \<and> status s = Some ''succeeded'')"

text \<open>
  Everything that can happen to the component: the user picks a file in the file input
  or drops one (possibly none), drags over or away from the drop zone, clicks the deploy
  button (the event carries the outcomes of the two calls \<open>handleDeploy\<close> awaits), a timer
  fires, an awaited status request settles, the user clicks "Deploy Another App".
\<close>

datatype event =
    FileSelect "file_obj option"
  | Drop "file_obj option"
  | DragOver
  | DragLeave
  | DeployClick upload_outcome start_outcome
  | Tick nat
  | Resolve nat poll_outcome
  | DeployAnother

text \<open>
  One event. \<open>None\<close> means that the event cannot happen in this state: its control is not
  rendered (or is disabled), the timer is not set, or no request of that callback is
  awaited.
\<close>

fun step :: "world \<Rightarrow> event \<Rightarrow> world option" where
  "step w (FileSelect f) =
     (if upload_area_shown (ui w) then Some (w\<lparr>ui := handleFileSelect f (ui w)\<rparr>) else None)"
| "step w (Drop f) =
     (if upload_area_shown (ui w) then Some (w\<lparr>ui := handleDrop f (ui w)\<rparr>) else None)"
| "step w DragOver =
     (if upload_area_shown (ui w) then Some (w\<lparr>ui := (ui w)\<lparr>dragOver := True\<rparr>\<rparr>) else None)"
| "step w DragLeave =
     (if upload_area_shown (ui w) then Some (w\<lparr>ui := (ui w)\<lparr>dragOver := False\<rparr>\<rparr>) else None)"
| "step w (DeployClick up st) =
     (if deploy_button_enabled (ui w) then Some (handleDeploy up st w) else None)"
| "step w (Tick h) =
     (case map_of (intervals w) h of
        Some i \<Rightarrow> Some (poll_tick h i w)
      | None \<Rightarrow> None)"
| "step w (Resolve h out) =
     (if h \<in> set (inflight w)
      then Some (poll_response h out (w\<lparr>inflight := remove1 h (inflight w)\<rparr>))
      else None)"
| "step w DeployAnother =
     (if deploy_another_shown (ui w) then Some (w\<lparr>ui := deployAnother (ui w)\<rparr>) else None)"

text \<open>A sequence of events, from the left; \<open>None\<close> when one of them cannot happen.\<close>

fun run :: "world \<Rightarrow> event list \<Rightarrow> world option" where
  "run w [] = Some w"
| "run w (e # es) = (case step w e of None \<Rightarrow> None | Some w' \<Rightarrow> run w' es)"

section \<open>Notions used in the statements\<close>

text \<open>
  The rule for the app name in the words of the specification: the declared name in lower
  case, with a trailing \<open>.zip\<close> stripped. It is compared with \<open>app_name\<close> below.
\<close>

definition spec_app_name :: "string \<Rightarrow> string" where
  "spec_app_name n =
     (let l = toLowerCase n in if endsWith l ''.zip'' then take (length l - 4) l else l)"

text \<open>A selection that \<open>handleFileSelect\<close> turns down: no file, or a name without \<open>.zip\<close> at its end.\<close>

fun invalid_selection :: "file_obj option \<Rightarrow> bool" where
  "invalid_selection None = True"
| "invalid_selection (Some f) = (\<not> endsWith (name f) ''.zip'')"

text \<open>
  Polling in progress: a timer fires, or a status response arrives whose \<open>status\<close> is
  neither \<open>succeeded\<close> nor \<open>failed\<close> (the \<open>else\<close> branch of the callback).
\<close>

fun running :: "event \<Rightarrow> bool" where
  "running (Tick h) = True"
| "running (Resolve h (Inr d)) = (r_status d \<noteq> ''succeeded'' \<and> r_status d \<noteq> ''failed'')"
| "running _ = False"

text \<open>
  The messages carried by the status responses of a sequence of events, in the order of
  arrival. A response carries a message when its \<open>message\<close> passes the test
  \<open>if (response.data.message)\<close> of the callback, that is, when it is a non-empty string.
\<close>

fun received :: "event list \<Rightarrow> string list" where
  "received [] = []"
| "received (Resolve h (Inr d) # es) =
     (if truthy (r_message d) then the (r_message d) # received es else received es)"
| "received (e # es) = received es"

text \<open>The outcomes of a status request on which the callback clears its timer.\<close>

fun stops_polling :: "poll_outcome \<Rightarrow> bool" where
  "stops_polling (Inl err) = True"
| "stops_polling (Inr d) = (r_status d = ''succeeded'' \<or> r_status d = ''failed'')"

text \<open>Two invariants of the runs: on the files that are uploaded, and on the status cell.\<close>

fun upload_ok :: "request \<Rightarrow> bool" where
  "upload_ok (UploadReq f) = endsWith (name f) ''.zip''"
| "upload_ok _ = True"

definition zip_inv :: "world \<Rightarrow> bool" where
  "zip_inv w =
     ((case file_cell (ui w) of None \<Rightarrow> True | Some f \<Rightarrow> endsWith (name f) ''.zip'')
      \<and> list_all upload_ok (requests w))"

definition status_inv :: "world \<Rightarrow> bool" where
  "status_inv w =
     (status (ui w) \<in> {None, Some ''uploading'', Some ''building'', Some ''succeeded'',
        Some ''failed''})"

subsection \<open>Sample inputs\<close>

definition sample_file :: file_obj where
  "sample_file = \<lparr>name = ''app.zip''\<rparr>"

definition text_file :: file_obj where
  "text_file = \<lparr>name = ''notes.txt''\<rparr>"

definition net_err :: http_error where
  "net_err = \<lparr>detail = None, message = ''Network Error''\<rparr>"

definition running_data :: "string option \<Rightarrow> status_data" where
  "running_data m = \<lparr>r_status = ''running'', r_message = m, r_url = Undefined\<rparr>"

definition failed_data :: status_data where
  "failed_data = \<lparr>r_status = ''failed'', r_message = None, r_url = Undefined\<rparr>"

definition succeeded_data :: status_data where
  "succeeded_data =
     \<lparr>r_status = ''succeeded'', r_message = None, r_url = Str ''http://x.test''\<rparr>"

text \<open>The state in which \<open>app.zip\<close> has been selected and nothing else has happened.\<close>

definition selected :: world where
  "selected = init_world\<lparr>ui := init_state\<lparr>file_cell := Some sample_file\<rparr>\<rparr>"

text \<open>A file is selected and deployed; upload and start succeed; the timer 0 is set.\<close>

definition launch :: "event list" where
  "launch = [FileSelect (Some sample_file), DeployClick (Inr ''up-1'') (Inr ''dep-1'')]"

text \<open>The same submission with an upload that throws.\<close>

definition upload_fails :: "event list" where
  "upload_fails = [FileSelect (Some sample_file), DeployClick (Inl net_err) (Inl net_err)]"

text \<open>After the launch, the first status request throws.\<close>

definition first_poll_throws :: "event list" where
  "first_poll_throws = launch @ [Tick 0, Resolve 0 (Inl net_err)]"

text \<open>After the launch, the first status response reports \<open>failed\<close>, or \<open>succeeded\<close>.\<close>

definition poll_reports_failed :: "event list" where
  "poll_reports_failed = launch @ [Tick 0, Resolve 0 (Inr failed_data)]"

definition poll_reports_succeeded :: "event list" where
  "poll_reports_succeeded = launch @ [Tick 0, Resolve 0 (Inr succeeded_data)]"

text \<open>
  After the launch the timer fires twice before a response arrives; the first response
  reports \<open>failed\<close>, the second is still awaited.
\<close>

definition halted :: "event list" where
  "halted = launch @ [Tick 0, Tick 0, Resolve 0 (Inr failed_data)]"

text \<open>
  After the launch the timer fires twice before a response arrives; the first response
  reports \<open>succeeded\<close>; then the second arrives and reports \<open>failed\<close>.
\<close>

definition overtaken :: "event list" where
  "overtaken = launch @ [Tick 0, Tick 0, Resolve 0 (Inr succeeded_data)]"

definition late_failure :: "event list" where
  "late_failure = overtaken @ [Resolve 0 (Inr failed_data)]"

text \<open>
  Polling in progress: three responses, two of them with a message, and a last request
  whose response is awaited.
\<close>

definition progress :: "event list" where
  "progress = [Tick 0, Resolve 0 (Inr (running_data (Some ''Building image''))),
     Tick 0, Tick 0, Resolve 0 (Inr (running_data None)),
     Resolve 0 (Inr (running_data (Some ''Pushing image''))), Tick 0]"

section \<open>Facts about the model\<close>

lemmas model_defs = init_world_def init_state_def sample_file_def text_file_def net_err_def
  upload_area_shown_def deploy_button_enabled_def deploy_another_shown_def
  handleFileSelect_def handleDrop_def endsWith_def handleDeploy_def deploy_catch_def
  pollDeploymentStatus_def poll_tick_def poll_response_def clearInterval_def deployAnother_def
  running_data_def failed_data_def succeeded_data_def Let_def

lemma run_append:
  "run w (xs @ ys) = (case run w xs of None \<Rightarrow> None | Some w' \<Rightarrow> run w' ys)"
  by (induction xs arbitrary: w) (auto split: option.splits)

lemma map_of_filter_fst:
  "map_of (filter (\<lambda>p. fst p \<noteq> k) xs) h = (if h = k then None else map_of xs h)"
  by (induction xs) auto

subsection \<open>Only archives are selected and uploaded\<close>

lemma handleFileSelect_zip:
  "(case file_cell s of None \<Rightarrow> True | Some f \<Rightarrow> endsWith (name f) ''.zip'') \<Longrightarrow>
   (case file_cell (handleFileSelect sel s) of None \<Rightarrow> True
    | Some f \<Rightarrow> endsWith (name f) ''.zip'')"
  by (auto simp: handleFileSelect_def split: option.splits)

lemma handleDeploy_zip: "zip_inv w \<Longrightarrow> zip_inv (handleDeploy up st w)"
  by (auto simp: zip_inv_def handleDeploy_def deploy_catch_def pollDeploymentStatus_def Let_def
      split: option.splits sum.splits)

lemma poll_response_zip: "zip_inv w \<Longrightarrow> zip_inv (poll_response h out w)"
  by (auto simp: zip_inv_def poll_response_def clearInterval_def split: sum.splits)

lemma step_zip_inv:
  assumes "zip_inv w" and "step w ev = Some w'"
  shows "zip_inv w'"
proof (cases ev)
  case (FileSelect f)
  with assms show ?thesis
    using handleFileSelect_zip [of "ui w" f]
    by (auto simp: zip_inv_def split: if_splits)
next
  case (Drop f)
  with assms show ?thesis
    using handleFileSelect_zip [of "(ui w)\<lparr>dragOver := False\<rparr>" f]
    by (auto simp: zip_inv_def handleDrop_def split: if_splits)
next
  case (DeployClick up st)
  with assms show ?thesis
    using handleDeploy_zip [of w up st] by (auto split: if_splits)
next
  case (Tick h)
  with assms show ?thesis
    by (auto simp: zip_inv_def poll_tick_def split: option.splits)
next
  case (Resolve h out)
  with assms show ?thesis
    using poll_response_zip [of "w\<lparr>inflight := remove1 h (inflight w)\<rparr>" h out]
    by (auto simp: zip_inv_def split: if_splits)
qed (use assms in \<open>auto simp: zip_inv_def deployAnother_def split: if_splits\<close>)

lemma run_zip_inv: "zip_inv w \<Longrightarrow> run w evs = Some w' \<Longrightarrow> zip_inv w'"
proof (induction evs arbitrary: w)
  case Nil
  then show ?case by simp
next
  case (Cons e es)
  then show ?case by (auto split: option.splits dest: step_zip_inv)
qed

lemma init_zip_inv: "zip_inv init_world"
  by (simp add: zip_inv_def init_world_def init_state_def)

lemma list_all_upload_ok:
  "list_all upload_ok rs \<Longrightarrow> UploadReq f \<in> set rs \<Longrightarrow> endsWith (name f) ''.zip''"
  by (induction rs) auto

lemma reject_step:
  assumes "\<not> endsWith (name f) ''.zip''"
    and "step w (FileSelect (Some f)) = Some w' \<or> step w (Drop (Some f)) = Some w'"
  shows "error (ui w') = Some ''Please select a valid .zip file containing your project''
     \<and> file_cell (ui w') = file_cell (ui w) \<and> requests w' = requests w
     \<and> inflight w' = inflight w \<and> intervals w' = intervals w
     \<and> status (ui w') = status (ui w)"
  using assms
  by (auto simp: handleFileSelect_def handleDrop_def msg_invalid_file_def split: if_splits)

subsection \<open>The values of the status cell\<close>

lemma status_inv_step: "status_inv w \<Longrightarrow> step w ev = Some w' \<Longrightarrow> status_inv w'"
  by (cases ev)
     (auto simp: status_inv_def handleFileSelect_def handleDrop_def handleDeploy_def
        deploy_catch_def pollDeploymentStatus_def poll_tick_def poll_response_def
        clearInterval_def deployAnother_def Let_def
        split: if_splits option.splits sum.splits)

lemma status_inv_run: "status_inv w \<Longrightarrow> run w evs = Some w' \<Longrightarrow> status_inv w'"
proof (induction evs arbitrary: w)
  case Nil
  then show ?case by simp
next
  case (Cons e es)
  then show ?case by (auto split: option.splits dest: status_inv_step)
qed

lemma init_status_inv: "status_inv init_world"
  by (simp add: status_inv_def init_world_def init_state_def)

subsection \<open>Polling\<close>

lemma running_step:
  assumes "running e" and "step w e = Some w'"
  shows "logs (ui w') = logs (ui w) @ received [e] \<and> status (ui w') = status (ui w)
     \<and> intervals w' = intervals w"
proof (cases e)
  case (Tick h)
  with assms show ?thesis by (auto simp: poll_tick_def split: option.splits)
next
  case (Resolve h out)
  with assms show ?thesis
    by (cases out) (auto simp: poll_response_def split: if_splits)
qed (use assms in auto)

lemma received_Cons: "received (e # es) = received [e] @ received es"
  by (cases "(e # es)" rule: received.cases) auto

lemma running_run:
  "list_all running evs \<Longrightarrow> run w evs = Some w' \<Longrightarrow>
   logs (ui w') = logs (ui w) @ received evs \<and> status (ui w') = status (ui w)
   \<and> intervals w' = intervals w"
proof (induction evs arbitrary: w)
  case Nil
  then show ?case by simp
next
  case (Cons e es)
  from Cons.prems obtain w1 where s: "step w e = Some w1" and r: "run w1 es = Some w'"
    by (auto split: option.splits)
  from Cons.prems have re: "running e" and res: "list_all running es" by simp_all
  note a = running_step [OF re s]
  note b = Cons.IH [OF res r]
  from a b show ?case by (simp add: received_Cons [of e es])
qed

lemma polling_events:
  assumes "truthy (deploymentId (ui w))" and "status (ui w) = Some ''building''"
    and "step w ev = Some w'"
  shows "(\<exists>h. ev = Tick h) \<or> (\<exists>h out. ev = Resolve h out)"
  using assms
  by (cases ev)
     (auto simp: upload_area_shown_def deploy_button_enabled_def deploy_another_shown_def
        split: if_splits)

lemma polling_status:
  assumes "status (ui w) = Some ''building''" and "step w ev = Some w'"
    and "(\<exists>h. ev = Tick h) \<or> (\<exists>h out. ev = Resolve h out)"
  shows "status (ui w') \<in> {Some ''building'', Some ''succeeded'', Some ''failed''}"
  using assms
  by (auto simp: poll_tick_def poll_response_def clearInterval_def
      split: if_splits option.splits sum.splits)

lemma timer_cleared_by:
  assumes "step w ev = Some w'" and "map_of (intervals w) h \<noteq> None"
    and "map_of (intervals w') h = None"
  shows "\<exists>out. ev = Resolve h out \<and> stops_polling out"
proof (cases ev)
  case (DeployClick up st)
  with assms show ?thesis
    by (auto simp: handleDeploy_def pollDeploymentStatus_def deploy_catch_def Let_def
        map_add_def split: if_splits option.splits sum.splits)
next
  case (Tick k)
  with assms show ?thesis by (auto simp: poll_tick_def split: option.splits)
next
  case (Resolve k out)
  with assms show ?thesis
    by (cases out)
       (auto simp: poll_response_def clearInterval_def map_of_filter_fst split: if_splits)
qed (use assms in \<open>auto split: if_splits\<close>)

lemma late_response:
  assumes "h \<in> set (inflight w)" and "r_status d = ''succeeded''"
  shows "\<exists>w'. step w (Resolve h (Inr d)) = Some w' \<and> status (ui w') = Some ''succeeded''"
  using assms by (simp add: poll_response_def clearInterval_def)

lemma nothing_enabled:
  assumes "truthy (deploymentId (ui w))" and "status (ui w) \<noteq> Some ''succeeded''"
    and "intervals w = []" and "inflight w = []"
  shows "step w ev = None"
  using assms
  by (cases ev)
     (auto simp: upload_area_shown_def deploy_button_enabled_def deploy_another_shown_def)

subsection \<open>The sample runs\<close>

lemma launch_world:
  "run init_world launch =
     Some \<lparr>ui = \<lparr>file_cell = Some sample_file, deploying = False,
                 deploymentId = Some ''dep-1'', status = Some ''building'',
                 logs = [log_uploading, log_upload_complete, log_building, log_deploying],
                 error = None, dragOver = False\<rparr>,
           requests = [UploadReq sample_file, StartReq ''up-1'' ''app''],
           intervals = [(0, ''dep-1'')], next_handle = Suc 0, inflight = []\<rparr>"
proof -
  have a: "app_name ''app.zip'' = ''app''" by code_simp
  show ?thesis by (simp add: launch_def model_defs a)
qed

lemma first_poll_throws_world:
  "run init_world first_poll_throws =
     Some \<lparr>ui = \<lparr>file_cell = Some sample_file, deploying = False,
                 deploymentId = Some ''dep-1'', status = Some ''building'',
                 logs = [log_uploading, log_upload_complete, log_building, log_deploying],
                 error = None, dragOver = False\<rparr>,
           requests = [UploadReq sample_file, StartReq ''up-1'' ''app'', StatusReq ''dep-1''],
           intervals = [], next_handle = Suc 0, inflight = []\<rparr>"
  by (simp add: first_poll_throws_def run_append launch_world poll_tick_def poll_response_def
      clearInterval_def)

lemma poll_reports_failed_world:
  "run init_world poll_reports_failed =
     Some \<lparr>ui = \<lparr>file_cell = Some sample_file, deploying = False,
                 deploymentId = Some ''dep-1'', status = Some ''failed'',
                 logs = [log_uploading, log_upload_complete, log_building, log_deploying,
                         log_failed],
                 error = None, dragOver = False\<rparr>,
           requests = [UploadReq sample_file, StartReq ''up-1'' ''app'', StatusReq ''dep-1''],
           intervals = [], next_handle = Suc 0, inflight = []\<rparr>"
  by (simp add: poll_reports_failed_def run_append launch_world poll_tick_def poll_response_def
      clearInterval_def failed_data_def)

lemma poll_reports_succeeded_world:
  "run init_world poll_reports_succeeded =
     Some \<lparr>ui = \<lparr>file_cell = Some sample_file, deploying = False,
                 deploymentId = Some ''dep-1'', status = Some ''succeeded'',
                 logs = [log_uploading, log_upload_complete, log_building, log_deploying,
                         log_successful, log_live (Str ''http://x.test'')],
                 error = None, dragOver = False\<rparr>,
           requests = [UploadReq sample_file, StartReq ''up-1'' ''app'', StatusReq ''dep-1''],
           intervals = [], next_handle = Suc 0, inflight = []\<rparr>"
  by (simp add: poll_reports_succeeded_def run_append launch_world poll_tick_def
      poll_response_def clearInterval_def succeeded_data_def)

lemma halted_world:
  "run init_world halted =
     Some \<lparr>ui = \<lparr>file_cell = Some sample_file, deploying = False,
                 deploymentId = Some ''dep-1'', status = Some ''failed'',
                 logs = [log_uploading, log_upload_complete, log_building, log_deploying,
                         log_failed],
                 error = None, dragOver = False\<rparr>,
           requests = [UploadReq sample_file, StartReq ''up-1'' ''app'', StatusReq ''dep-1'',
                       StatusReq ''dep-1''],
           intervals = [], next_handle = Suc 0, inflight = [0]\<rparr>"
  by (simp add: halted_def run_append launch_world poll_tick_def poll_response_def
      clearInterval_def failed_data_def)

lemma upload_fails_world:
  "run init_world upload_fails =
     Some \<lparr>ui = \<lparr>file_cell = Some sample_file, deploying = False,
                 deploymentId = None, status = Some ''failed'',
                 logs = [log_uploading, log_deploy_error ''Network Error''],
                 error = Some ''Network Error'', dragOver = False\<rparr>,
           requests = [UploadReq sample_file],
           intervals = [], next_handle = 0, inflight = []\<rparr>"
  by (simp add: upload_fails_def model_defs)

lemma overtaken_world:
  "run init_world overtaken =
     Some \<lparr>ui = \<lparr>file_cell = Some sample_file, deploying = False,
                 deploymentId = Some ''dep-1'', status = Some ''succeeded'',
                 logs = [log_uploading, log_upload_complete, log_building, log_deploying,
                         log_successful, log_live (Str ''http://x.test'')],
                 error = None, dragOver = False\<rparr>,
           requests = [UploadReq sample_file, StartReq ''up-1'' ''app'', StatusReq ''dep-1'',
                       StatusReq ''dep-1''],
           intervals = [], next_handle = Suc 0, inflight = [0]\<rparr>"
  by (simp add: overtaken_def run_append launch_world poll_tick_def poll_response_def
      clearInterval_def succeeded_data_def)

lemma late_failure_world:
  "run init_world late_failure =
     Some \<lparr>ui = \<lparr>file_cell = Some sample_file, deploying = False,
                 deploymentId = Some ''dep-1'', status = Some ''failed'',
                 logs = [log_uploading, log_upload_complete, log_building, log_deploying,
                         log_successful, log_live (Str ''http://x.test''), log_failed],
                 error = None, dragOver = False\<rparr>,
           requests = [UploadReq sample_file, StartReq ''up-1'' ''app'', StatusReq ''dep-1'',
                       StatusReq ''dep-1''],
           intervals = [], next_handle = Suc 0, inflight = []\<rparr>"
  by (simp add: late_failure_def run_append overtaken_world poll_response_def
      clearInterval_def failed_data_def)

lemma progress_run:
  "\<exists>w. run init_world (launch @ progress) = Some w \<and> inflight w = [0]
     \<and> intervals w = [(0, ''dep-1'')]"
  by (simp add: progress_def run_append launch_world poll_tick_def poll_response_def
      running_data_def)

lemma filter_all_same:
  "list_all (\<lambda>p. fst p = h) xs \<Longrightarrow> filter (\<lambda>p. fst p \<noteq> h) xs = []"
  by (induction xs) auto

lemma progress_running: "list_all running progress"
  by (simp add: progress_def running_data_def)

lemma progress_received: "received progress = [''Building image'', ''Pushing image'']"
  by (simp add: progress_def running_data_def)

section \<open>The claims\<close>

text \<open>
  C1. Claimed: for every submission the stream of progress events ends with exactly one
  terminal event, and once polling has begun the caller never observes silence (no
  further events and no terminal event).

  The component does not do this when a status request throws. In the run
  \<open>first_poll_throws\<close> (select \<open>app.zip\<close>, deploy, upload and start succeed, the timer
  fires, the request throws) the \<open>catch\<close> block of the timer callback clears the timer
  and sets nothing: the status stays \<open>building\<close>, the error cell stays empty, no request
  is awaited, and no event at all can happen afterwards. The \<open>catch\<close> block of
  \<open>handleDeploy\<close> does set the status \<open>failed\<close> and the error on the same kind of failure.
\<close>

theorem poll_error_leaves_session_silent:
  "case run init_world first_poll_throws of
     None \<Rightarrow> False
   | Some w \<Rightarrow> status (ui w) = Some ''building'' \<and> error (ui w) = None
       \<and> intervals w = [] \<and> inflight w = [] \<and> (\<forall>ev. step w ev = None)"
proof -
  obtain w where w: "run init_world first_poll_throws = Some w"
    using first_poll_throws_world by simp
  then have f: "status (ui w) = Some ''building''" "error (ui w) = None"
      "deploymentId (ui w) = Some ''dep-1''" "intervals w = []" "inflight w = []"
    using first_poll_throws_world by auto
  have "\<forall>ev. step w ev = None"
    using nothing_enabled [of w] f by simp
  with f w show ?thesis by simp
qed




text \<open>
  C3, as claimed: if a status response reports \<open>succeeded\<close> with a URL, the terminal event
  of the session is Succeeded with that URL and polling stops, with the messages of the
  earlier running responses in the log.

  Counterexample: in the run \<open>overtaken\<close> the timer fires twice before the first response
  arrives. The first response reports \<open>succeeded\<close> with the URL and the status becomes
  \<open>succeeded\<close>; the second request is still awaited, and when its response reports
  \<open>failed\<close> (the run \<open>late_failure\<close>) the status becomes \<open>failed\<close> and the failure line
  is appended after the two lines of the success. The callback compares neither the
  status nor a generation before it handles a response.
\<close>

theorem succeeded_is_not_final:
  "map_option (\<lambda>w. (status (ui w), inflight w)) (run init_world overtaken)
     = Some (Some ''succeeded'', [0])
   \<and> map_option (\<lambda>w. (status (ui w), logs (ui w))) (run init_world late_failure)
     = Some (Some ''failed'',
         [log_uploading, log_upload_complete, log_building, log_deploying,
          log_successful, emoji_globe @ '' Your app is live at: http://x.test'',
          log_failed])"
  by (simp add: overtaken_world late_failure_world log_live_def)

text \<open>
  C3, amended: if a status response reports \<open>succeeded\<close> with a URL, then on its arrival
  the status becomes \<open>succeeded\<close>, the last line of the log carries exactly that URL, the
  timer whose callback awaited the response is cleared and issues no further request,
  and the log holds, after what it held when polling began, every message of the earlier
  running responses in the order of their arrival, followed by the two lines of the
  success. When in addition no other status response is awaited and no other timer is
  set, polling has stopped altogether: no timer is set, no response is awaited, and
  neither a timer tick nor a status response can follow. Here \<open>w\<close> is any state, \<open>evs\<close>
  the timer ticks and the responses that arrive while polling is in progress, and \<open>d\<close>
  the body of the response that arrives next. Nothing is said of a response that is
  still awaited or of another timer.
\<close>

theorem succeeded_response_on_arrival:
  assumes "run w evs = Some w1" and "list_all running evs"
    and "r_status d = ''succeeded''" and "r_url d = Str u"
    and "step w1 (Resolve h (Inr d)) = Some w2"
  shows "status (ui w2) = Some ''succeeded''
     \<and> logs (ui w2) = logs (ui w) @ received evs
          @ [log_successful, emoji_globe @ '' Your app is live at: '' @ u]
     \<and> map_of (intervals w2) h = None \<and> step w2 (Tick h) = None
     \<and> (inflight w1 = [h] \<and> list_all (\<lambda>p. fst p = h) (intervals w1)
          \<longrightarrow> intervals w2 = [] \<and> inflight w2 = []
            \<and> (\<forall>k. step w2 (Tick k) = None)
            \<and> (\<forall>k out. step w2 (Resolve k out) = None))"
proof -
  note a = running_run [OF assms(2) assms(1)]
  have w2: "w2 = poll_response h (Inr d) (w1\<lparr>inflight := remove1 h (inflight w1)\<rparr>)"
    using assms(5) by (simp split: if_splits)
  have i: "intervals w2 = filter (\<lambda>p. fst p \<noteq> h) (intervals w1)"
    and f: "inflight w2 = remove1 h (inflight w1)"
    using assms(3) by (simp_all add: w2 poll_response_def clearInterval_def)
  have b: "status (ui w2) = Some ''succeeded''
     \<and> logs (ui w2) = logs (ui w) @ received evs
          @ [log_successful, emoji_globe @ '' Your app is live at: '' @ u]"
    using a assms(3,4) by (simp add: w2 poll_response_def clearInterval_def log_live_def)
  have c: "map_of (intervals w2) h = None \<and> step w2 (Tick h) = None"
    by (simp add: i map_of_filter_fst)
  have e: "inflight w1 = [h] \<and> list_all (\<lambda>p. fst p = h) (intervals w1)
          \<longrightarrow> intervals w2 = [] \<and> inflight w2 = []
            \<and> (\<forall>k. step w2 (Tick k) = None)
            \<and> (\<forall>k out. step w2 (Resolve k out) = None)"
  proof
    assume h: "inflight w1 = [h] \<and> list_all (\<lambda>p. fst p = h) (intervals w1)"
    then have i': "intervals w2 = []" using i by (simp add: filter_all_same)
    from h have f': "inflight w2 = []" using f by simp
    from i' f' show "intervals w2 = [] \<and> inflight w2 = []
            \<and> (\<forall>k. step w2 (Tick k) = None)
            \<and> (\<forall>k out. step w2 (Resolve k out) = None)"
      by simp
  qed
  from b c e show ?thesis by simp
qed

theorem succeeded_response_on_arrival_witness:
  "list_all running progress \<and>
   (case run init_world (launch @ progress @ [Resolve 0 (Inr succeeded_data)]) of
      None \<Rightarrow> False
    | Some w2 \<Rightarrow> status (ui w2) = Some ''succeeded''
        \<and> logs (ui w2) =
            [log_uploading, log_upload_complete, log_building, log_deploying,
             ''Building image'', ''Pushing image'', log_successful,
             emoji_globe @ '' Your app is live at: http://x.test'']
        \<and> intervals w2 = [] \<and> inflight w2 = []
        \<and> step w2 (Tick 0) = None
        \<and> step w2 (Resolve 0 (Inr failed_data)) = None)"
proof -
  obtain w where w: "run init_world launch = Some w"
    and l: "logs (ui w) = [log_uploading, log_upload_complete, log_building, log_deploying]"
    using launch_world by simp
  obtain w1 where w1: "run w progress = Some w1" and f: "inflight w1 = [0]"
    and i: "intervals w1 = [(0, ''dep-1'')]"
    using progress_run w by (auto simp: run_append)
  obtain w2 where w2: "step w1 (Resolve 0 (Inr succeeded_data)) = Some w2"
    using f by simp
  have d: "r_status succeeded_data = ''succeeded''"
    "r_url succeeded_data = Str ''http://x.test''"
    by (simp_all add: succeeded_data_def)
  have p: "inflight w1 = [0] \<and> list_all (\<lambda>p. fst p = 0) (intervals w1)"
    using f i by simp
  note t = succeeded_response_on_arrival [OF w1 progress_running d w2]
  from t p have q: "status (ui w2) = Some ''succeeded''"
    "logs (ui w2) = logs (ui w) @ received progress
       @ [log_successful, emoji_globe @ '' Your app is live at: '' @ ''http://x.test'']"
    "intervals w2 = []" "inflight w2 = []"
    "step w2 (Tick 0) = None" "step w2 (Resolve 0 (Inr failed_data)) = None"
    by blast+
  have r: "run init_world (launch @ progress @ [Resolve 0 (Inr succeeded_data)]) = Some w2"
    using w w1 w2 by (simp add: run_append)
  show ?thesis
    unfolding r using q l progress_running by (simp add: progress_received)
qed

text \<open>
  C4. Claimed: the app name sent to the start endpoint is the declared name in lower
  case with its trailing \<open>.zip\<close> stripped; \<open>My App.zip\<close> gives \<open>my app\<close>.

  The code removes the first \<open>.zip\<close> of the name, wherever it stands, and then lowers the
  case. For \<open>My App.zip\<close> the two agree. For \<open>my.zipped.zip\<close>, a name that
  \<open>handleFileSelect\<close> accepts, the code sends \<open>myped.zip\<close> where the claimed rule gives
  \<open>my.zipped\<close>.
\<close>

theorem app_name_first_occurrence:
  "app_name ''My App.zip'' = ''my app'' \<and> spec_app_name ''My App.zip'' = ''my app''
   \<and> endsWith ''my.zipped.zip'' ''.zip''
   \<and> app_name ''my.zipped.zip'' = ''myped.zip''
   \<and> spec_app_name ''my.zipped.zip'' = ''my.zipped''"
  by code_simp

text \<open>
  C5. When the upload request of a submission fails, the only request issued is the
  upload: no start request and no status request, and no timer is set. The session
  becomes \<open>failed\<close> at once, with the error recorded: the error cell holds the \<open>detail\<close> of
  the response when there is one and the message of the error otherwise, and the log
  ends with the line naming the error message.
\<close>

theorem upload_failure_aborts:
  assumes "file_cell (ui w) = Some f"
  shows "requests (handleDeploy (Inl err) st w) = requests w @ [UploadReq f]
    \<and> status (ui (handleDeploy (Inl err) st w)) = Some ''failed''
    \<and> error (ui (handleDeploy (Inl err) st w)) =
          Some (if truthy (detail err) then the (detail err) else message err)
    \<and> logs (ui (handleDeploy (Inl err) st w)) =
          [log_uploading, emoji_cross @ '' Deployment failed: '' @ message err]
    \<and> deploymentId (ui (handleDeploy (Inl err) st w)) = deploymentId (ui w)
    \<and> \<not> deploying (ui (handleDeploy (Inl err) st w))
    \<and> intervals (handleDeploy (Inl err) st w) = intervals w
    \<and> inflight (handleDeploy (Inl err) st w) = inflight w"
  using assms by (simp add: handleDeploy_def deploy_catch_def log_deploy_error_def Let_def)

theorem upload_failure_aborts_witness:
  "file_cell (ui selected) = Some sample_file
   \<and> requests (handleDeploy (Inl net_err) (Inr ''dep-1'') selected) = [UploadReq sample_file]
   \<and> status (ui (handleDeploy (Inl net_err) (Inr ''dep-1'') selected)) = Some ''failed''
   \<and> error (ui (handleDeploy (Inl net_err) (Inr ''dep-1'') selected)) = Some ''Network Error''
   \<and> intervals (handleDeploy (Inl net_err) (Inr ''dep-1'') selected) = []"
proof -
  have g: "file_cell (ui selected) = Some sample_file"
    by (simp add: selected_def init_world_def init_state_def)
  have r: "requests selected = []" "intervals selected = []"
    by (simp_all add: selected_def init_world_def)
  from upload_failure_aborts [OF g, of net_err "Inr ''dep-1''"] g r
  show ?thesis by (simp add: net_err_def)
qed

text \<open>
  C6, as claimed: cancelling a session before a terminal state yields Cancelled as the
  only terminal event, stops the poll requests, and discards a response in flight.

  Counterexample: the component has no cancel operation. In the state reached by
  \<open>launch\<close>, where polling has begun, the only events that can happen are a timer tick
  and the arrival of a status response, and whatever happens the status is \<open>building\<close>,
  \<open>succeeded\<close> or \<open>failed\<close> afterwards.
\<close>

theorem no_cancel_while_polling:
  "case run init_world launch of
     None \<Rightarrow> False
   | Some w \<Rightarrow> status (ui w) = Some ''building'' \<and>
       (\<forall>ev w'. step w ev = Some w' \<longrightarrow>
          ((\<exists>h. ev = Tick h) \<or> (\<exists>h out. ev = Resolve h out)) \<and>
          status (ui w') \<in> {Some ''building'', Some ''succeeded'', Some ''failed''})"
proof -
  obtain w where w: "run init_world launch = Some w"
    and s: "status (ui w) = Some ''building''" and d: "truthy (deploymentId (ui w))"
    using launch_world by simp
  have "\<forall>ev w'. step w ev = Some w' \<longrightarrow>
          ((\<exists>h. ev = Tick h) \<or> (\<exists>h out. ev = Resolve h out)) \<and>
          status (ui w') \<in> {Some ''building'', Some ''succeeded'', Some ''failed''}"
    using polling_events [OF d s] polling_status [OF s] by blast
  with w s show ?thesis by simp
qed

text \<open>
  C6, amended: the component has no cancel operation and no Cancelled state. In every
  state that a run from the initial state reaches, the status is unset, \<open>uploading\<close>,
  \<open>building\<close>, \<open>succeeded\<close> or \<open>failed\<close>. A timer that is set is cleared only by the
  arrival of a response to one of its own requests that reports \<open>succeeded\<close> or \<open>failed\<close>
  or that throws; a timer that is not set issues no request; and a response that is
  still awaited is handled when it arrives, whether its timer is set or not: one that
  reports \<open>succeeded\<close> sets the status \<open>succeeded\<close>.
\<close>

theorem status_never_cancelled:
  assumes "run init_world evs = Some w"
  shows "status (ui w) \<in> {None, Some ''uploading'', Some ''building'', Some ''succeeded'',
            Some ''failed''}
    \<and> (\<forall>ev w' h. step w ev = Some w' \<and> map_of (intervals w) h \<noteq> None
            \<and> map_of (intervals w') h = None
          \<longrightarrow> (\<exists>out. ev = Resolve h out \<and> stops_polling out))
    \<and> (\<forall>h. map_of (intervals w) h = None \<longrightarrow> step w (Tick h) = None)
    \<and> (\<forall>h d. h \<in> set (inflight w) \<and> r_status d = ''succeeded''
          \<longrightarrow> (\<exists>w'. step w (Resolve h (Inr d)) = Some w'
                \<and> status (ui w') = Some ''succeeded''))"
proof -
  have "status_inv w" using status_inv_run [OF init_status_inv assms] .
  then have a: "status (ui w) \<in> {None, Some ''uploading'', Some ''building'',
      Some ''succeeded'', Some ''failed''}"
    by (simp add: status_inv_def)
  have b: "\<forall>ev w' h. step w ev = Some w' \<and> map_of (intervals w) h \<noteq> None
            \<and> map_of (intervals w') h = None
          \<longrightarrow> (\<exists>out. ev = Resolve h out \<and> stops_polling out)"
    using timer_cleared_by by blast
  have c: "\<forall>h. map_of (intervals w) h = None \<longrightarrow> step w (Tick h) = None" by simp
  have d: "\<forall>h d. h \<in> set (inflight w) \<and> r_status d = ''succeeded''
          \<longrightarrow> (\<exists>w'. step w (Resolve h (Inr d)) = Some w'
                \<and> status (ui w') = Some ''succeeded'')"
    using late_response by blast
  from a b c d show ?thesis by blast
qed

theorem status_never_cancelled_witness:
  "case run init_world halted of
     None \<Rightarrow> False
   | Some w \<Rightarrow> status (ui w) = Some ''failed'' \<and> step w (Tick 0) = None \<and>
       (\<exists>w'. step w (Resolve 0 (Inr succeeded_data)) = Some w'
          \<and> status (ui w') = Some ''succeeded'')"
proof -
  obtain w where w: "run init_world halted = Some w"
    and f: "status (ui w) = Some ''failed''" "intervals w = []" "inflight w = [0]"
    using halted_world by simp
  have d: "r_status succeeded_data = ''succeeded''" by (simp add: succeeded_data_def)
  note t = status_never_cancelled [OF w]
  from t have "\<forall>h. map_of (intervals w) h = None \<longrightarrow> step w (Tick h) = None" by blast
  then have a: "step w (Tick 0) = None" using f by simp
  from t have "\<forall>h d. h \<in> set (inflight w) \<and> r_status d = ''succeeded''
          \<longrightarrow> (\<exists>w'. step w (Resolve h (Inr d)) = Some w'
                \<and> status (ui w') = Some ''succeeded'')" by blast
  then have b: "\<exists>w'. step w (Resolve 0 (Inr succeeded_data)) = Some w'
      \<and> status (ui w') = Some ''succeeded''"
    using f d by simp
  from w f a b show ?thesis by simp
qed

text \<open>
  C7, as claimed: \<open>reset()\<close> fails with a state error before a terminal state and
  succeeds after any terminal state (Succeeded, Failed or Cancelled), clearing all
  session fields.

  Counterexample: after the run \<open>poll_reports_failed\<close> the status is \<open>failed\<close>, a terminal
  state, and the reset (the button "Deploy Another App") cannot be used.
\<close>

theorem no_reset_after_failed:
  "map_option (\<lambda>w. status (ui w)) (run init_world poll_reports_failed) = Some (Some ''failed'')
   \<and> run init_world (poll_reports_failed @ [DeployAnother]) = None"
  by (simp add: run_append poll_reports_failed_world deploy_another_shown_def)

text \<open>
  C7, amended: the reset (the button "Deploy Another App") is available exactly when the
  status is \<open>succeeded\<close> and the log is not empty. It then clears the file, the deployment
  id, the status and the log, keeps the error message, and the upload area is shown
  again, so that a new submission can start; requests, timers and awaited responses are
  not touched. In every other state, before a terminal state or after Failed, the reset
  is not available, and nothing raises a state error.
\<close>

theorem deploy_another_after_success:
  "(step w DeployAnother \<noteq> None
      \<longleftrightarrow> status (ui w) = Some ''succeeded'' \<and> logs (ui w) \<noteq> [])
   \<and> (\<forall>w'. step w DeployAnother = Some w' \<longrightarrow>
         file_cell (ui w') = None \<and> deploymentId (ui w') = None \<and> status (ui w') = None
         \<and> logs (ui w') = [] \<and> error (ui w') = error (ui w)
         \<and> deploying (ui w') = deploying (ui w) \<and> upload_area_shown (ui w')
         \<and> requests w' = requests w \<and> intervals w' = intervals w
         \<and> inflight w' = inflight w)"
  by (auto simp: deploy_another_shown_def deployAnother_def upload_area_shown_def)

theorem deploy_another_after_success_witness:
  "map_option
     (\<lambda>w. (file_cell (ui w), deploymentId (ui w), status (ui w), logs (ui w),
           upload_area_shown (ui w)))
     (run init_world (poll_reports_succeeded @ [DeployAnother]))
   = Some (None, None, None, [], True)"
proof -
  obtain w where w: "run init_world poll_reports_succeeded = Some w"
    and s: "status (ui w) = Some ''succeeded''" "logs (ui w) \<noteq> []"
    using poll_reports_succeeded_world by simp
  from deploy_another_after_success [of w] s
  obtain w' where w': "step w DeployAnother = Some w'" by blast
  from deploy_another_after_success [of w] w' show ?thesis
    using w by (simp add: run_append)
qed

text \<open>
  C8. A selected or dropped file whose name does not end in \<open>.zip\<close> is turned down on the
  spot: the error message is set, the selected file, the status, the issued requests,
  the timers and the awaited responses are as before, so no network call is made. Only
  files whose name ends in \<open>.zip\<close> are accepted: in every state that a run from the
  initial state reaches, the selected file and every file that was uploaded has a name
  ending in \<open>.zip\<close>.
\<close>

theorem only_zip_accepted:
  assumes "run init_world evs = Some w"
  shows "(\<forall>f. UploadReq f \<in> set (requests w) \<longrightarrow> endsWith (name f) ''.zip'')
    \<and> (\<forall>f. file_cell (ui w) = Some f \<longrightarrow> endsWith (name f) ''.zip'')
    \<and> (\<forall>f w'. \<not> endsWith (name f) ''.zip''
           \<and> (step w (FileSelect (Some f)) = Some w' \<or> step w (Drop (Some f)) = Some w')
         \<longrightarrow> error (ui w') = Some ''Please select a valid .zip file containing your project''
           \<and> file_cell (ui w') = file_cell (ui w) \<and> requests w' = requests w
           \<and> inflight w' = inflight w \<and> intervals w' = intervals w
           \<and> status (ui w') = status (ui w))"
proof -
  have z: "zip_inv w" using run_zip_inv [OF init_zip_inv assms] .
  then have l: "list_all upload_ok (requests w)" by (simp add: zip_inv_def)
  have a: "\<forall>f. UploadReq f \<in> set (requests w) \<longrightarrow> endsWith (name f) ''.zip''"
  proof (intro allI impI)
    fix f
    assume "UploadReq f \<in> set (requests w)"
    with l show "endsWith (name f) ''.zip''" by (rule list_all_upload_ok)
  qed
  have b: "\<forall>f. file_cell (ui w) = Some f \<longrightarrow> endsWith (name f) ''.zip''"
  proof (intro allI impI)
    fix f
    assume "file_cell (ui w) = Some f"
    with z show "endsWith (name f) ''.zip''" by (simp add: zip_inv_def)
  qed
  have c: "\<forall>f w'. \<not> endsWith (name f) ''.zip''
           \<and> (step w (FileSelect (Some f)) = Some w' \<or> step w (Drop (Some f)) = Some w')
         \<longrightarrow> error (ui w') = Some ''Please select a valid .zip file containing your project''
           \<and> file_cell (ui w') = file_cell (ui w) \<and> requests w' = requests w
           \<and> inflight w' = inflight w \<and> intervals w' = intervals w
           \<and> status (ui w') = status (ui w)"
  proof (intro allI impI)
    fix f w'
    assume h: "\<not> endsWith (name f) ''.zip''
           \<and> (step w (FileSelect (Some f)) = Some w' \<or> step w (Drop (Some f)) = Some w')"
    show "error (ui w') = Some ''Please select a valid .zip file containing your project''
           \<and> file_cell (ui w') = file_cell (ui w) \<and> requests w' = requests w
           \<and> inflight w' = inflight w \<and> intervals w' = intervals w
           \<and> status (ui w') = status (ui w)"
      by (rule reject_step [OF conjunct1 [OF h] conjunct2 [OF h]])
  qed
  show ?thesis by (rule conjI [OF a conjI [OF b c]])
qed

theorem only_zip_accepted_witness:
  "endsWith (name sample_file) ''.zip'' \<and> \<not> endsWith (name text_file) ''.zip'' \<and>
   map_option (\<lambda>w. (error (ui w), file_cell (ui w), requests w))
     (run init_world (upload_fails @ [FileSelect (Some text_file)]))
   = Some (Some ''Please select a valid .zip file containing your project'',
        Some sample_file, [UploadReq sample_file])"
proof -
  obtain w where w: "run init_world upload_fails = Some w"
    and f: "file_cell (ui w) = Some sample_file" "requests w = [UploadReq sample_file]"
    and u: "upload_area_shown (ui w)"
    using upload_fails_world by (simp add: upload_area_shown_def)
  obtain w' where w': "step w (FileSelect (Some text_file)) = Some w'"
    using u by simp
  have n: "\<not> endsWith (name text_file) ''.zip''" by (simp add: text_file_def endsWith_def)
  note t = only_zip_accepted [OF w]
  have a: "endsWith (name sample_file) ''.zip''"
    using conjunct1 [OF conjunct2 [OF t]] f by simp
  have p: "\<not> endsWith (name text_file) ''.zip''
      \<and> (step w (FileSelect (Some text_file)) = Some w'
         \<or> step w (Drop (Some text_file)) = Some w')"
    by (rule conjI [OF n disjI1 [OF w']])
  note c = conjunct2 [OF conjunct2 [OF t], rule_format, OF p]
  from c have "error (ui w') = Some ''Please select a valid .zip file containing your project''"
    and "file_cell (ui w') = file_cell (ui w)" and "requests w' = requests w"
    by blast+
  with a n f w w' show ?thesis by (simp add: run_append)
qed

text \<open>
  C9. If a file is selected and the file selection is then invoked with no file or with
  a file whose name does not end in \<open>.zip\<close>, only the error message is set: the state is
  otherwise the same, the selected file is kept, the deploy button is enabled as before,
  and a deployment does what it would have done without the rejected selection: it
  starts by uploading the file that was kept.
\<close>

theorem rejected_selection_keeps_file:
  assumes "file_cell (ui w) = Some g" and "invalid_selection sel"
    and "step w (FileSelect sel) = Some w'"
  shows "w' = w\<lparr>ui := (ui w)\<lparr>error :=
              Some ''Please select a valid .zip file containing your project''\<rparr>\<rparr>
    \<and> file_cell (ui w') = Some g
    \<and> deploy_button_enabled (ui w') = deploy_button_enabled (ui w)
    \<and> handleDeploy up st w' = handleDeploy up st w
    \<and> (\<exists>rest. requests (handleDeploy up st w') = requests w @ UploadReq g # rest)"
proof -
  have w': "w' = w\<lparr>ui := (ui w)\<lparr>error :=
      Some ''Please select a valid .zip file containing your project''\<rparr>\<rparr>"
    using assms(2,3)
    by (cases sel) (auto simp: handleFileSelect_def msg_invalid_file_def split: if_splits)
  have e: "handleDeploy up st w' = handleDeploy up st w"
    using assms(1) by (simp add: w' handleDeploy_def)
  have r: "\<exists>rest. requests (handleDeploy up st w) = requests w @ UploadReq g # rest"
    using assms(1)
    by (cases up; cases st) (simp_all add: handleDeploy_def pollDeploymentStatus_def Let_def)
  show ?thesis
    using assms(1) e r by (simp add: w' deploy_button_enabled_def upload_area_shown_def)
qed

theorem rejected_selection_keeps_file_witness:
  "file_cell (ui selected) = Some sample_file \<and> invalid_selection (Some text_file)
   \<and> (\<exists>w'. step selected (FileSelect (Some text_file)) = Some w'
        \<and> file_cell (ui w') = Some sample_file
        \<and> error (ui w') = Some ''Please select a valid .zip file containing your project''
        \<and> requests (handleDeploy (Inr ''up-1'') (Inr ''dep-1'') w')
            = [UploadReq sample_file, StartReq ''up-1'' ''app''])"
proof -
  have g: "file_cell (ui selected) = Some sample_file"
    by (simp add: selected_def init_world_def init_state_def)
  have i: "invalid_selection (Some text_file)" by (simp add: text_file_def endsWith_def)
  obtain w' where w': "step selected (FileSelect (Some text_file)) = Some w'"
    by (simp add: selected_def init_world_def init_state_def upload_area_shown_def)
  note t = rejected_selection_keeps_file [OF g i w', of "Inr ''up-1''" "Inr ''dep-1''"]
  from t have e: "error (ui w') =
      Some ''Please select a valid .zip file containing your project''"
    by simp
  from t have k: "file_cell (ui w') = Some sample_file" by blast
  from t have h: "handleDeploy (Inr ''up-1'') (Inr ''dep-1'') w'
      = handleDeploy (Inr ''up-1'') (Inr ''dep-1'') selected"
    by blast
  have a: "app_name ''app.zip'' = ''app''" by code_simp
  have r: "requests (handleDeploy (Inr ''up-1'') (Inr ''dep-1'') selected)
      = [UploadReq sample_file, StartReq ''up-1'' ''app'']"
    by (simp add: selected_def model_defs a)
  from g i w' e k h r show ?thesis by simp
qed

text \<open>
  C10. Invoking the deploy operation while no file is selected sets the error message
  \<open>Please select a file first\<close> and returns: no network request is issued, and the
  status, the deployment id and the log are not modified; nothing but the error message
  changes.
\<close>

theorem deploy_without_file:
  assumes "file_cell (ui w) = None"
  shows "error (ui (handleDeploy up st w)) = Some ''Please select a file first''
    \<and> requests (handleDeploy up st w) = requests w
    \<and> status (ui (handleDeploy up st w)) = status (ui w)
    \<and> deploymentId (ui (handleDeploy up st w)) = deploymentId (ui w)
    \<and> logs (ui (handleDeploy up st w)) = logs (ui w)
    \<and> handleDeploy up st w = w\<lparr>ui := (ui w)\<lparr>error := Some ''Please select a file first''\<rparr>\<rparr>"
  using assms by (simp add: handleDeploy_def msg_no_file_def)

theorem deploy_without_file_witness:
  "file_cell (ui init_world) = None
   \<and> error (ui (handleDeploy (Inr ''up-1'') (Inr ''dep-1'') init_world))
       = Some ''Please select a file first''
   \<and> requests (handleDeploy (Inr ''up-1'') (Inr ''dep-1'') init_world) = []
   \<and> status (ui (handleDeploy (Inr ''up-1'') (Inr ''dep-1'') init_world)) = None
   \<and> deploymentId (ui (handleDeploy (Inr ''up-1'') (Inr ''dep-1'') init_world)) = None
   \<and> logs (ui (handleDeploy (Inr ''up-1'') (Inr ''dep-1'') init_world)) = []"
proof -
  have g: "file_cell (ui init_world) = None"
    by (simp add: init_world_def init_state_def)
  have r: "requests init_world = []" "status (ui init_world) = None"
    "deploymentId (ui init_world) = None" "logs (ui init_world) = []"
    by (simp_all add: init_world_def init_state_def)
  from deploy_without_file [OF g, of "Inr ''up-1''" "Inr ''dep-1''"] g r
  show ?thesis by simp
qed

end
